theory Spec2Isabelle
  imports Complex_Main
begin

section \<open>JavaScript values used by the plugin\<close>

text \<open>
  The plugin is TypeScript running on Node. Numbers are binary64 floats; the model uses the
  reals and a separate \<open>NaN\<close>. On the integer inputs of the temperature claims the value
  handed to \<open>Math.round\<close> is a multiple of 1/95 or of 1/9, so it is at least 1/190 away
  from a rounding boundary and the float computation rounds to the same integer as the exact one.
\<close>

datatype jsnum = NaN | Num real

text \<open>\<open>Math.round\<close>: the nearest integer, a tie going up.\<close>

definition Math_round :: "real \<Rightarrow> real" where
  "Math_round x = of_int \<lfloor>x + 1 / 2\<rfloor>"

definition isNaN :: "jsnum \<Rightarrow> bool" where
  "isNaN n = (case n of NaN \<Rightarrow> True | Num x \<Rightarrow> False)"

section \<open>Temperature mapper (the coalescing accessory)\<close>

text \<open>
  \<open>tempToCalvin\<close> and \<open>calvinToTemp\<close> of the accessory class that holds the request
  coalescer. Arithmetic on \<open>NaN\<close> gives \<open>NaN\<close>, and so does \<open>Math.round\<close>.
\<close>

fun tempToCalvin :: "jsnum \<Rightarrow> jsnum" where
  "tempToCalvin NaN = NaN"
| "tempToCalvin (Num temp) =
     (let total = 500 - 140;
          current = temp - 140;
          p = 1 - (current / total)
      in Num (Math_round (2700 + ((6500 - 2700) * p))))"

fun calvinToTemp :: "jsnum \<Rightarrow> jsnum" where
  "calvinToTemp NaN = NaN"
| "calvinToTemp (Num calvin) =
     (let total = 6500 - 2700;
          current = calvin - 2700;
          p = 1 - (current / total)
      in Num (Math_round (140 + ((500 - 140) * p))))"

text \<open>
  The older accessory class (\<open>src/platformAccessory.ts\<close>, no coalescer) has the same
  \<open>tempToCalvin\<close> but a \<open>calvinToTemp\<close> that does not invert the scale.
\<close>

fun calvinToTemp_old :: "jsnum \<Rightarrow> jsnum" where
  "calvinToTemp_old NaN = NaN"
| "calvinToTemp_old (Num calvin) =
     (let total = 6500 - 2700;
          current = calvin - 2700;
          p = current / total
      in Num (Math_round (140 + ((500 - 140) * p))))"

section \<open>JSON values and property access\<close>

datatype json =
    JNull
  | JBool bool
  | JNum real
  | JStr string
  | JArr "json list"
  | JObj "(string \<times> json) list"

text \<open>
  A JavaScript value that came out of \<open>JSON.parse\<close>, or \<open>undefined\<close> (\<open>None\<close>).
  An object lists each of its own properties once.
\<close>

type_synonym jsval = "json option"

datatype js_error = SyntaxError | TypeError | SendError | NotRunning

text \<open>
  The two functions of the JavaScript runtime that the plugin calls on network data are
  parameters of the model: \<open>JSON.parse\<close> (\<open>None\<close> when it throws a SyntaxError) and the
  global \<open>parseInt\<close>.
\<close>

record runtime =
  JSON_parse :: "string \<Rightarrow> json option"
  parseInt :: "jsval \<Rightarrow> jsnum"

text \<open>Truthiness, as \<open>!x\<close> and \<open>if (x)\<close> test it.\<close>

fun truthy :: "jsval \<Rightarrow> bool" where
  "truthy None = False"
| "truthy (Some JNull) = False"
| "truthy (Some (JBool b)) = b"
| "truthy (Some (JNum x)) = (x \<noteq> 0)"
| "truthy (Some (JStr s)) = (s \<noteq> [])"
| "truthy (Some (JArr xs)) = True"
| "truthy (Some (JObj kvs)) = True"

text \<open>
  \<open>v.f\<close>: a TypeError on \<open>undefined\<close> and \<open>null\<close>, the property of an object, and
  \<open>undefined\<close> on every other value (none of the property names read by the plugin is a
  built-in property of a string, number, boolean or array).
\<close>

fun getProp :: "jsval \<Rightarrow> string \<Rightarrow> js_error + jsval" where
  "getProp None f = Inl TypeError"
| "getProp (Some JNull) f = Inl TypeError"
| "getProp (Some (JObj kvs)) f = Inr (map_of kvs f)"
| "getProp (Some v) f = Inr None"

text \<open>Sequencing of steps that may throw.\<close>

definition bindE :: "'e + 'a \<Rightarrow> ('a \<Rightarrow> 'e + 'b) \<Rightarrow> 'e + 'b" where
  "bindE m f = (case m of Inl e \<Rightarrow> Inl e | Inr x \<Rightarrow> f x)"

text \<open>\<open>a ?? b\<close>\<close>

definition nullish :: "jsval \<Rightarrow> bool" where
  "nullish v = (v = None \<or> v = Some JNull)"

definition coalesce :: "jsval \<Rightarrow> jsval \<Rightarrow> jsval" where
  "coalesce a b = (if nullish a then b else a)"

section \<open>Discovery: \<open>makeWizDevice\<close> and \<open>getWizDevice\<close>\<close>

datatype wiz_type = WHITE_LIGHT | RGB_LIGHT | SWITCH

record wiz_device =
  ip :: string
  type :: wiz_type
  mac :: jsval
  rssi :: jsval
  src :: jsval
  state :: jsval
  sceneId :: jsval
  temp :: jsval
  dimming :: jsval

text \<open>
  The function expression inside \<open>makeWizDevice\<close> of \<open>src/platform.ts\<close> (the same text
  is in \<open>TestClass\<close>) that computes \<open>type\<close>.
\<close>

definition wizType :: "json \<Rightarrow> js_error + wiz_type" where
  "wizType info =
     bindE (getProp (Some info) ''result'') (\<lambda>result.
     bindE (getProp result ''dimming'') (\<lambda>d.
       if \<not> truthy d then Inr SWITCH
       else
         bindE (getProp (Some info) ''result'') (\<lambda>result.
         bindE (getProp result ''temp'') (\<lambda>t.
           if truthy t then Inr WHITE_LIGHT else Inr RGB_LIGHT))))"

definition makeWizDevice :: "string \<Rightarrow> json \<Rightarrow> js_error + wiz_device" where
  "makeWizDevice addr info =
     bindE (wizType info) (\<lambda>ty.
     bindE (getProp (Some info) ''result'') (\<lambda>result.
     bindE (getProp result ''mac'') (\<lambda>m.
     bindE (getProp result ''state'') (\<lambda>st.
     bindE (getProp result ''rssi'') (\<lambda>rs.
     bindE (getProp result ''src'') (\<lambda>sr.
     bindE (getProp result ''sceneId'') (\<lambda>sc.
       let device = \<lparr>ip = addr, type = ty, mac = m, rssi = rs, src = sr, state = st,
                      sceneId = sc, temp = None, dimming = None\<rparr>
       in if ty \<noteq> SWITCH then
            (if ty = WHITE_LIGHT then
               bindE (getProp result ''dimming'') (\<lambda>d.
               bindE (getProp result ''temp'') (\<lambda>t.
                 Inr (device\<lparr>dimming := d, temp := t\<rparr>)))
             else Inr device)
          else Inr device)))))))"

text \<open>
  The variant of \<open>makeWizDevice\<close> in the platform class that probes a fixed device list:
  the classification is commented out there and \<open>type\<close> is the constant \<open>'WHITE_LIGHT'\<close>.
\<close>

definition makeWizDevice_fixed :: "string \<Rightarrow> json \<Rightarrow> js_error + wiz_device" where
  "makeWizDevice_fixed addr info =
     (let ty = WHITE_LIGHT in
     bindE (getProp (Some info) ''result'') (\<lambda>result.
     bindE (getProp result ''mac'') (\<lambda>m.
     bindE (getProp result ''state'') (\<lambda>st.
     bindE (getProp result ''rssi'') (\<lambda>rs.
     bindE (getProp result ''src'') (\<lambda>sr.
     bindE (getProp result ''sceneId'') (\<lambda>sc.
     bindE (getProp result ''dimming'') (\<lambda>d.
     bindE (getProp result ''temp'') (\<lambda>t.
       Inr \<lparr>ip = addr, type = ty, mac = m, rssi = rs, src = sr, state = st, sceneId = sc,
            temp = coalesce t (Some (JNum 2700)),
            dimming = coalesce d (Some (JNum 0))\<rparr>)))))))))"

text \<open>
  One call of \<open>getWizDevice\<close>: a promise, a socket of its own, the pending callback of
  \<open>client.send\<close>, the 0 ms timers that close the socket after a message, and the timeout
  timer (1000 ms in \<open>src/platform.ts\<close>, 5000 ms in the fixed-list variant, 500 ms in
  \<open>TestClass\<close>). \<open>p_resolved = None\<close> is a promise still pending, \<open>Some None\<close> is
  one resolved to \<open>null\<close>. \<open>p_uncaught\<close> logs the errors that leave a handler.
\<close>

record probe =
  p_ip :: string
  p_open :: bool
  p_sending :: bool
  p_close_timers :: nat
  p_timeout :: "nat option"
  p_resolved :: "wiz_device option option"
  p_uncaught :: "js_error list"

datatype probe_event = PMessage string | PSendDone bool | PCloseTimer | PTimeout

definition getWizDevice :: "nat \<Rightarrow> string \<Rightarrow> probe" where
  "getWizDevice ms addr =
     \<lparr>p_ip = addr, p_open = True, p_sending = True, p_close_timers = 0,
      p_timeout = Some ms, p_resolved = None, p_uncaught = []\<rparr>"

text \<open>\<open>resolve(v)\<close>: the first resolution of a promise stays.\<close>

definition resolve :: "wiz_device option \<Rightarrow> probe \<Rightarrow> probe" where
  "resolve v s = (if p_resolved s = None then s\<lparr>p_resolved := Some v\<rparr> else s)"

text \<open>\<open>client.close()\<close> throws on a socket that is already closed.\<close>

definition probe_close :: "probe \<Rightarrow> js_error + probe" where
  "probe_close s = (if p_open s then Inr (s\<lparr>p_open := False\<rparr>) else Inl NotRunning)"

definition probe_message :: "runtime \<Rightarrow> string \<Rightarrow> probe \<Rightarrow> probe" where
  "probe_message rt message s =
     (let s1 =
        (case JSON_parse rt message of
           None \<Rightarrow> resolve None s
         | Some deviceInfo \<Rightarrow>
             (case getProp (Some deviceInfo) ''method'' of
                Inl e \<Rightarrow> resolve None s
              | Inr m \<Rightarrow>
                  if m = Some (JStr ''getPilot'') then
                    (case makeWizDevice (p_ip s) deviceInfo of
                       Inl e \<Rightarrow> resolve None s
                     | Inr d \<Rightarrow> resolve (Some d) s)
                  else resolve None s))
      in s1\<lparr>p_close_timers := Suc (p_close_timers s1)\<rparr>)"

definition probe_send_done :: "bool \<Rightarrow> probe \<Rightarrow> probe" where
  "probe_send_done error s =
     (let s1 = s\<lparr>p_sending := False\<rparr>
      in if error then
           (case probe_close s1 of
              Inl e \<Rightarrow> s1\<lparr>p_uncaught := p_uncaught s1 @ [e]\<rparr>
            | Inr s2 \<Rightarrow> resolve None s2)
         else s1)"

definition probe_close_timer :: "probe \<Rightarrow> probe" where
  "probe_close_timer s =
     (let s1 = s\<lparr>p_close_timers := p_close_timers s - 1\<rparr>
      in case probe_close s1 of
           Inl e \<Rightarrow> s1\<lparr>p_uncaught := p_uncaught s1 @ [e]\<rparr>
         | Inr s2 \<Rightarrow> s2)"

definition probe_timeout :: "probe \<Rightarrow> probe" where
  "probe_timeout s =
     (let s1 = s\<lparr>p_timeout := None\<rparr>;
          s2 = (case probe_close s1 of Inl e \<Rightarrow> s1 | Inr s' \<Rightarrow> s')
      in resolve None s2)"

text \<open>
  One turn of the event loop. An event that cannot occur in a state (a datagram on a closed
  socket, a callback or timer that is not pending) leaves the state as it is.
\<close>

fun probe_step :: "runtime \<Rightarrow> probe \<Rightarrow> probe_event \<Rightarrow> probe" where
  "probe_step rt s (PMessage message) = (if p_open s then probe_message rt message s else s)"
| "probe_step rt s (PSendDone error) = (if p_sending s then probe_send_done error s else s)"
| "probe_step rt s PCloseTimer = (if 0 < p_close_timers s then probe_close_timer s else s)"
| "probe_step rt s PTimeout = (if p_timeout s \<noteq> None then probe_timeout s else s)"

definition probe_run :: "runtime \<Rightarrow> probe \<Rightarrow> probe_event list \<Rightarrow> probe" where
  "probe_run rt s evs = foldl (probe_step rt) s evs"

section \<open>The accessory with the request coalescer\<close>

text \<open>
  The callbacks that the accessory's handlers pass to \<open>getPilot\<close> and \<open>request\<close>, named
  after the handler that builds them; the number identifies the HomeKit callback they call.
\<close>

datatype callback =
    GetOnCb nat
  | GetBrightnessCb nat
  | GetTemperatureCb nat
  | SetOnCb bool nat
  | SetBrightnessCb nat
  | SetTemperatureCb nat

text \<open>The value a handler hands to HomeKit's callback after \<open>null\<close>.\<close>

datatype hk_value = HkNothing | HkVal jsval | HkNum jsnum

record currentState =
  On :: jsval
  Brightness :: jsval
  Temperature :: jsnum

record socket =
  s_method :: string
  s_callback :: "callback option"
  s_open :: bool
  s_sending :: bool
  s_close_timers :: nat

text \<open>
  The fields of \<open>HomebridgeWizLight\<close>, the sockets its requests created, and three logs:
  the datagrams given to \<open>client.send\<close>, the callbacks invoked with the reply they got, and
  the calls of HomeKit's callbacks. \<open>uncaught\<close> logs the errors that leave a handler.
\<close>

record light =
  currentState :: currentState
  pendingRequest :: bool
  callbacks :: "callback list"
  sockets :: "socket list"
  sent :: "(string \<times> (string \<times> jsval) list) list"
  invoked :: "(callback \<times> json) list"
  homekit :: "(nat \<times> hk_value) list"
  uncaught :: "js_error list"

definition new_light :: light where
  "new_light =
     \<lparr>currentState = \<lparr>On = Some (JBool False), Brightness = Some (JNum 100), Temperature = Num 140\<rparr>,
      pendingRequest = False, callbacks = [], sockets = [], sent = [], invoked = [],
      homekit = [], uncaught = []\<rparr>"

text \<open>
  \<open>request\<close> up to the return of \<open>client.send\<close>: the flag, the socket with its message
  handler (which closes over \<open>callback\<close>), the datagram.
\<close>

definition request :: "string \<Rightarrow> (string \<times> jsval) list \<Rightarrow> callback option \<Rightarrow> light \<Rightarrow> light" where
  "request method params callback s =
     (let s1 = s\<lparr>pendingRequest := True\<rparr>;
          client = \<lparr>s_method = method, s_callback = callback, s_open = True,
                    s_sending = True, s_close_timers = 0\<rparr>
      in s1\<lparr>sockets := sockets s1 @ [client], sent := sent s1 @ [(method, params)]\<rparr>)"

definition getPilot :: "callback \<Rightarrow> light \<Rightarrow> light" where
  "getPilot callback s =
     (let s1 = s\<lparr>callbacks := callbacks s @ [callback]\<rparr>
      in if \<not> pendingRequest s1 then request ''getPilot'' [] None s1 else s1)"

text \<open>What \<open>JSON.stringify\<close> prints for a number: \<open>NaN\<close> becomes \<open>null\<close>.\<close>

definition jsval_of_num :: "jsnum \<Rightarrow> jsval" where
  "jsval_of_num n = (case n of NaN \<Rightarrow> Some JNull | Num x \<Rightarrow> Some (JNum x))"

definition setOn :: "bool \<Rightarrow> nat \<Rightarrow> light \<Rightarrow> light" where
  "setOn v h s = request ''setPilot'' [(''state'', Some (JBool v))] (Some (SetOnCb v h)) s"

definition getOn :: "nat \<Rightarrow> light \<Rightarrow> light" where
  "getOn h s = getPilot (GetOnCb h) s"

definition setBrightness :: "real \<Rightarrow> nat \<Rightarrow> light \<Rightarrow> light" where
  "setBrightness v h s =
     (let s1 = s\<lparr>currentState := (currentState s)\<lparr>Brightness := Some (JNum v)\<rparr>\<rparr>
      in request ''setPilot'' [(''dimming'', Brightness (currentState s1))]
           (Some (SetBrightnessCb h)) s1)"

definition getBrightness :: "nat \<Rightarrow> light \<Rightarrow> light" where
  "getBrightness h s = getPilot (GetBrightnessCb h) s"

definition setTemperature :: "real \<Rightarrow> nat \<Rightarrow> light \<Rightarrow> light" where
  "setTemperature v h s =
     (let s1 = s\<lparr>currentState := (currentState s)\<lparr>Temperature := Num v\<rparr>\<rparr>
      in request ''setPilot''
           [(''temp'', jsval_of_num (tempToCalvin (Temperature (currentState s1))))]
           (Some (SetTemperatureCb h)) s1)"

definition getTemperature :: "nat \<Rightarrow> light \<Rightarrow> light" where
  "getTemperature h s = getPilot (GetTemperatureCb h) s"

text \<open>
  The bodies of the callbacks. Each returns the state it leaves and the error it throws,
  if any; an assignment whose right-hand side throws does not happen.
\<close>

definition hk_call :: "nat \<Rightarrow> hk_value \<Rightarrow> light \<Rightarrow> light" where
  "hk_call h v s = s\<lparr>homekit := homekit s @ [(h, v)]\<rparr>"

definition getOn_cb :: "nat \<Rightarrow> json \<Rightarrow> light \<Rightarrow> light \<times> js_error option" where
  "getOn_cb h response s =
     (case bindE (getProp (Some response) ''result'') (\<lambda>r. getProp r ''state'') of
        Inl e \<Rightarrow> (s, Some e)
      | Inr st \<Rightarrow>
          (hk_call h (HkVal st) (s\<lparr>currentState := (currentState s)\<lparr>On := st\<rparr>\<rparr>), None))"

definition getBrightness_cb :: "nat \<Rightarrow> json \<Rightarrow> light \<Rightarrow> light \<times> js_error option" where
  "getBrightness_cb h response s =
     (case bindE (getProp (Some response) ''result'') (\<lambda>r. getProp r ''dimming'') of
        Inl e \<Rightarrow> (s, Some e)
      | Inr d \<Rightarrow>
          (let result = coalesce d (Some (JNum 0))
           in (hk_call h (HkVal result)
                 (s\<lparr>currentState := (currentState s)\<lparr>Brightness := result\<rparr>\<rparr>), None)))"

definition getTemperature_cb ::
    "runtime \<Rightarrow> nat \<Rightarrow> json \<Rightarrow> light \<Rightarrow> light \<times> js_error option" where
  "getTemperature_cb rt h response s =
     (case bindE (getProp (Some response) ''result'') (\<lambda>r. getProp r ''temp'') of
        Inl e \<Rightarrow> (s, Some e)
      | Inr t \<Rightarrow>
          (let temp0 = calvinToTemp (parseInt rt t);
               temp1 = (if isNaN temp0 then Num 500 else temp0);
               s1 = s\<lparr>currentState := (currentState s)\<lparr>Temperature := temp1\<rparr>\<rparr>
           in (hk_call h (HkNum (Temperature (currentState s1))) s1, None)))"

definition setOn_cb :: "bool \<Rightarrow> nat \<Rightarrow> light \<Rightarrow> light \<times> js_error option" where
  "setOn_cb v h s =
     (hk_call h HkNothing (s\<lparr>currentState := (currentState s)\<lparr>On := Some (JBool v)\<rparr>\<rparr>), None)"

text \<open>A call \<open>callback(response)\<close>: logged, then the body runs.\<close>

definition invoke :: "runtime \<Rightarrow> callback \<Rightarrow> json \<Rightarrow> light \<Rightarrow> light \<times> js_error option" where
  "invoke rt cb response s =
     (let s1 = s\<lparr>invoked := invoked s @ [(cb, response)]\<rparr>
      in case cb of
           GetOnCb h \<Rightarrow> getOn_cb h response s1
         | GetBrightnessCb h \<Rightarrow> getBrightness_cb h response s1
         | GetTemperatureCb h \<Rightarrow> getTemperature_cb rt h response s1
         | SetOnCb v h \<Rightarrow> setOn_cb v h s1
         | SetBrightnessCb h \<Rightarrow> (hk_call h HkNothing s1, None)
         | SetTemperatureCb h \<Rightarrow> (hk_call h HkNothing s1, None))"

text \<open>\<open>this.callbacks.forEach(...)\<close>: a callback that throws ends the loop.\<close>

fun forEach_callback ::
    "runtime \<Rightarrow> callback list \<Rightarrow> json \<Rightarrow> light \<Rightarrow> light \<times> js_error option" where
  "forEach_callback rt [] response s = (s, None)"
| "forEach_callback rt (cb # cbs) response s =
     (case invoke rt cb response s of
        (s1, Some e) \<Rightarrow> (s1, Some e)
      | (s1, None) \<Rightarrow> forEach_callback rt cbs response s1)"

definition throw :: "js_error \<Rightarrow> light \<Rightarrow> light" where
  "throw e s = s\<lparr>uncaught := uncaught s @ [e]\<rparr>"

definition update_socket :: "nat \<Rightarrow> (socket \<Rightarrow> socket) \<Rightarrow> light \<Rightarrow> light" where
  "update_socket i f s = s\<lparr>sockets := (sockets s)[i := f (sockets s ! i)]\<rparr>"

text \<open>The \<open>message\<close> handler of the socket with index \<open>i\<close> (an index below the number of sockets).\<close>

definition on_message :: "runtime \<Rightarrow> nat \<Rightarrow> string \<Rightarrow> light \<Rightarrow> light" where
  "on_message rt i message s =
     (let s1 = s\<lparr>pendingRequest := False\<rparr>
      in case JSON_parse rt message of
           None \<Rightarrow> throw SyntaxError s1
         | Some response \<Rightarrow>
             (case
                (case s_callback (sockets s1 ! i) of
                   Some callback \<Rightarrow> invoke rt callback response s1
                 | None \<Rightarrow>
                     (case forEach_callback rt (callbacks s1) response s1 of
                        (s2, Some e) \<Rightarrow> (s2, Some e)
                      | (s2, None) \<Rightarrow> (s2\<lparr>callbacks := []\<rparr>, None)))
              of
                (s3, Some e) \<Rightarrow> throw e s3
              | (s3, None) \<Rightarrow>
                  update_socket i (\<lambda>c. c\<lparr>s_close_timers := Suc (s_close_timers c)\<rparr>) s3))"

text \<open>\<open>client.close()\<close> on socket \<open>i\<close>.\<close>

definition client_close :: "nat \<Rightarrow> light \<Rightarrow> light \<times> js_error option" where
  "client_close i s =
     (if s_open (sockets s ! i) then (update_socket i (\<lambda>c. c\<lparr>s_open := False\<rparr>) s, None)
      else (s, Some NotRunning))"

text \<open>The callback given to \<open>client.send\<close> for socket \<open>i\<close>.\<close>

definition on_send_done :: "nat \<Rightarrow> bool \<Rightarrow> light \<Rightarrow> light" where
  "on_send_done i error s =
     (let s1 = update_socket i (\<lambda>c. c\<lparr>s_sending := False\<rparr>) (s\<lparr>pendingRequest := False\<rparr>)
      in if error then
           (case client_close i s1 of
              (s2, Some e) \<Rightarrow> throw e s2
            | (s2, None) \<Rightarrow> throw SendError s2)
         else s1)"

text \<open>The 0 ms timer set by the message handler of socket \<open>i\<close>.\<close>

definition on_close_timer :: "nat \<Rightarrow> light \<Rightarrow> light" where
  "on_close_timer i s =
     (let s1 = update_socket i (\<lambda>c. c\<lparr>s_close_timers := s_close_timers c - 1\<rparr>) s
      in case client_close i s1 of
           (s2, Some e) \<Rightarrow> throw e s2
         | (s2, None) \<Rightarrow> s2)"

datatype event =
    SetOn bool nat
  | GetOn nat
  | SetBrightness real nat
  | GetBrightness nat
  | SetTemperature real nat
  | GetTemperature nat
  | SendDone nat bool
  | Message nat string
  | CloseTimer nat

text \<open>
  One turn of the event loop: a call of a HomeKit handler, or a socket event. A socket event
  that cannot occur in a state leaves the state as it is.
\<close>

fun step :: "runtime \<Rightarrow> light \<Rightarrow> event \<Rightarrow> light" where
  "step rt s (SetOn v h) = setOn v h s"
| "step rt s (GetOn h) = getOn h s"
| "step rt s (SetBrightness v h) = setBrightness v h s"
| "step rt s (GetBrightness h) = getBrightness h s"
| "step rt s (SetTemperature v h) = setTemperature v h s"
| "step rt s (GetTemperature h) = getTemperature h s"
| "step rt s (SendDone i error) =
     (if i < length (sockets s) \<and> s_sending (sockets s ! i) then on_send_done i error s else s)"
| "step rt s (Message i message) =
     (if i < length (sockets s) \<and> s_open (sockets s ! i) then on_message rt i message s else s)"
| "step rt s (CloseTimer i) =
     (if i < length (sockets s) \<and> 0 < s_close_timers (sockets s ! i) then on_close_timer i s
      else s)"

definition run :: "runtime \<Rightarrow> light \<Rightarrow> event list \<Rightarrow> light" where
  "run rt s evs = foldl (step rt) s evs"

text \<open>
  The exchanges of a method that wait for a reply: its sockets that are open and have no
  close scheduled.
\<close>

definition outstanding :: "string \<Rightarrow> light \<Rightarrow> socket list" where
  "outstanding method s =
     filter (\<lambda>c. s_method c = method \<and> s_open c \<and> s_close_timers c = 0) (sockets s)"

text \<open>A reply whose \<open>result\<close> can be read from: no callback body throws on it.\<close>

definition has_result :: "json \<Rightarrow> bool" where
  "has_result response =
     (case getProp (Some response) ''result'' of Inl e \<Rightarrow> False | Inr r \<Rightarrow> \<not> nullish r)"

section \<open>The older accessory class\<close>

text \<open>
  \<open>src/platformAccessory.ts\<close> has no coalescer: every handler calls \<open>request\<close> with a
  callback of its own. The callback of its \<open>getTemperature\<close> computes the value that it
  stores in \<open>currentState.Temperature\<close> and hands to HomeKit's callback; there is no test
  for \<open>NaN\<close>.
\<close>

definition getTemperature_cb_old :: "runtime \<Rightarrow> json \<Rightarrow> js_error + jsnum" where
  "getTemperature_cb_old rt response =
     bindE (getProp (Some response) ''result'') (\<lambda>r.
     bindE (getProp r ''temp'') (\<lambda>t.
       Inr (calvinToTemp_old (parseInt rt t))))"

text \<open>Events that deliver a datagram, and traces without one.\<close>

fun is_message :: "event \<Rightarrow> bool" where
  "is_message (Message i message) = True"
| "is_message e = False"

fun no_message :: "event list \<Rightarrow> bool" where
  "no_message [] = True"
| "no_message (e # evs) = (\<not> is_message e \<and> no_message evs)"

text \<open>
  A datagram on a socket whose request had no callback of its own. \<open>getPilot\<close> is the only
  caller of \<open>request\<close> that passes none.
\<close>

fun getPilot_reply :: "light \<Rightarrow> event \<Rightarrow> bool" where
  "getPilot_reply s (Message i message) =
     (i < length (sockets s) \<and> s_callback (sockets s ! i) = None)"
| "getPilot_reply s e = False"

text \<open>The timeout timer of a probe is pending, or the probe is resolved and its socket closed.\<close>

definition probe_settled :: "probe \<Rightarrow> bool" where
  "probe_settled s = (p_timeout s \<noteq> None \<or> (p_resolved s \<noteq> None \<and> \<not> p_open s))"

text \<open>A number within \<open>d\<close> of \<open>c\<close>.\<close>

definition num_within :: "jsnum \<Rightarrow> real \<Rightarrow> real \<Rightarrow> bool" where
  "num_within n c d = (case n of NaN \<Rightarrow> False | Num x \<Rightarrow> abs (x - c) \<le> d)"

section \<open>A sample runtime\<close>

text \<open>
  A runtime for evaluating the model on concrete datagrams. Its \<open>JSON.parse\<close> knows five
  texts and rejects every other one; its \<open>parseInt\<close> reads an integer-valued number as
  itself and gives \<open>NaN\<close> on every other value (the runtime's \<open>parseInt\<close> gives
  \<open>NaN\<close> on \<open>undefined\<close>, \<open>null\<close> and booleans too).
\<close>

definition reply_white :: json where
  "reply_white =
     JObj [(''method'', JStr ''getPilot''),
           (''result'', JObj [(''mac'', JStr ''a8bb50aabbcc''), (''state'', JBool True),
                              (''dimming'', JNum 50), (''temp'', JNum 2700)])]"

definition reply_notemp :: json where
  "reply_notemp =
     JObj [(''method'', JStr ''getPilot''),
           (''result'', JObj [(''mac'', JStr ''a8bb50aabbcc''), (''state'', JBool True),
                              (''dimming'', JNum 80)])]"

definition reply_set :: json where
  "reply_set = JObj [(''method'', JStr ''setPilot''), (''result'', JObj [(''success'', JBool True)])]"

definition sample_parse :: "string \<Rightarrow> json option" where
  "sample_parse message =
     (if message = ''white'' then Some reply_white
      else if message = ''notemp'' then Some reply_notemp
      else if message = ''set'' then Some reply_set
      else if message = ''null'' then Some JNull
      else if message = ''{}'' then Some (JObj [])
      else None)"

definition sample_parseInt :: "jsval \<Rightarrow> jsnum" where
  "sample_parseInt v =
     (case v of
        Some (JNum x) \<Rightarrow> (if x = of_int \<lfloor>x\<rfloor> then Num x else NaN)
      | _ \<Rightarrow> NaN)"

definition rt0 :: runtime where
  "rt0 = \<lparr>JSON_parse = sample_parse, parseInt = sample_parseInt\<rparr>"

section \<open>Facts about the sample runtime and the initial state\<close>

lemma sample_parses:
  "JSON_parse rt0 ''set'' = Some reply_set" "JSON_parse rt0 ''white'' = Some reply_white"
  "JSON_parse rt0 ''notemp'' = Some reply_notemp" "JSON_parse rt0 ''garbage'' = None"
  by (simp_all add: rt0_def sample_parse_def)

lemma sample_has_result: "has_result reply_white" "has_result reply_notemp" "has_result reply_set"
  by (simp_all add: has_result_def reply_white_def reply_notemp_def reply_set_def nullish_def)

lemma new_light_fields:
  "\<not> pendingRequest new_light" "callbacks new_light = []" "sockets new_light = []"
  "sent new_light = []" "invoked new_light = []" "homekit new_light = []" "uncaught new_light = []"
  by (simp_all add: new_light_def)

section \<open>Temperature mapper\<close>

lemma unit_roundtrip:
  "calvinToTemp (tempToCalvin (Num (of_int u))) = Num (of_int u)"
proof -
  define x :: real where "x = 2700 + (6500 - 2700) * (1 - (of_int u - 140) / (500 - 140))"
  define k :: int where "k = \<lfloor>x + 1 / 2\<rfloor>"
  have k1: "of_int k \<le> x + 1 / 2" and k2: "x + 1 / 2 < of_int k + 1"
    unfolding k_def by linarith+
  define y :: real where "y = 140 + (500 - 140) * (1 - (of_int k - 2700) / (6500 - 2700))"
  have "\<lfloor>y + 1 / 2\<rfloor> = u"
  proof (rule floor_unique)
    show "of_int u \<le> y + 1 / 2"
      using k1 k2 unfolding y_def x_def by (simp add: field_simps)
    show "y + 1 / 2 < of_int u + 1"
      using k1 k2 unfolding y_def x_def by (simp add: field_simps)
  qed
  moreover have "tempToCalvin (Num (of_int u)) = Num (of_int k)"
    by (simp only: tempToCalvin.simps Let_def Math_round_def k_def x_def)
  moreover have "calvinToTemp (Num (of_int k)) = Num (of_int \<lfloor>y + 1 / 2\<rfloor>)"
    by (simp only: calvinToTemp.simps Let_def Math_round_def y_def)
  ultimately show ?thesis by simp
qed

lemma kelvin_roundtrip:
  "\<exists>k'. tempToCalvin (calvinToTemp (Num (of_int k))) = Num (of_int k') \<and> \<bar>k' - k\<bar> \<le> 5"
proof -
  define y :: real where "y = 140 + (500 - 140) * (1 - (of_int k - 2700) / (6500 - 2700))"
  define u :: int where "u = \<lfloor>y + 1 / 2\<rfloor>"
  have u1: "of_int u \<le> y + 1 / 2" and u2: "y + 1 / 2 < of_int u + 1"
    unfolding u_def by linarith+
  define x :: real where "x = 2700 + (6500 - 2700) * (1 - (of_int u - 140) / (500 - 140))"
  define k' :: int where "k' = \<lfloor>x + 1 / 2\<rfloor>"
  have k1: "of_int k' \<le> x + 1 / 2" and k2: "x + 1 / 2 < of_int k' + 1"
    unfolding k'_def by linarith+
  have "real_of_int (k' - k) < 6" "real_of_int (k' - k) > - 6"
    using k1 k2 u1 u2 unfolding x_def y_def by (simp_all add: field_simps)
  then have "k' - k < 6" "k' - k > - 6" by linarith+
  then have "\<bar>k' - k\<bar> \<le> 5" by linarith
  moreover have "calvinToTemp (Num (of_int k)) = Num (of_int u)"
    by (simp only: calvinToTemp.simps Let_def Math_round_def u_def y_def)
  moreover have "tempToCalvin (Num (of_int u)) = Num (of_int k')"
    by (simp only: tempToCalvin.simps Let_def Math_round_def k'_def x_def)
  ultimately show ?thesis by auto
qed

text \<open>
  C3. The claim: for every integer Kelvin \<open>k\<close> in [2700, 6500] the round trip
  \<open>tempToCalvin (calvinToTemp k)\<close> is within 1 of \<open>k\<close>, and for every integer unit \<open>u\<close> in
  [140, 500] the round trip \<open>calvinToTemp (tempToCalvin u)\<close> is within 1 of \<open>u\<close>.
  The unit scale has 361 values and the Kelvin scale 3801, so a Kelvin value cannot come
  back to within 1. What holds: the Kelvin round trip is within 5 of \<open>k\<close>, and the unit
  round trip returns \<open>u\<close> itself.
\<close>

theorem temperature_roundtrip:
  "(2700 \<le> k \<and> k \<le> 6500 \<longrightarrow>
      num_within (tempToCalvin (calvinToTemp (Num (of_int k)))) (of_int k) 5) \<and>
   (140 \<le> u \<and> u \<le> 500 \<longrightarrow>
      calvinToTemp (tempToCalvin (Num (of_int u))) = Num (of_int u) \<and>
      num_within (calvinToTemp (tempToCalvin (Num (of_int u)))) (of_int u) 1)"
proof -
  obtain k' where k': "tempToCalvin (calvinToTemp (Num (of_int k))) = Num (of_int k')"
    "\<bar>k' - k\<bar> \<le> 5"
    using kelvin_roundtrip[of k] by blast
  have "\<bar>real_of_int k' - real_of_int k\<bar> \<le> 5"
    using k'(2) by linarith
  then have "num_within (tempToCalvin (calvinToTemp (Num (of_int k)))) (of_int k) 5"
    unfolding k'(1) num_within_def by simp
  moreover have "num_within (calvinToTemp (tempToCalvin (Num (of_int u)))) (of_int u) 1"
    unfolding unit_roundtrip num_within_def by simp
  ultimately show ?thesis
    using unit_roundtrip[of u] by blast
qed

theorem temperature_roundtrip_witness:
  "(2700::int) \<le> 2705 \<and> (2705::int) \<le> 6500 \<and>
   num_within (tempToCalvin (calvinToTemp (Num (of_int 2705)))) (of_int 2705) 5 \<and>
   (140::int) \<le> 300 \<and> (300::int) \<le> 500 \<and>
   calvinToTemp (tempToCalvin (Num (of_int 300))) = Num (of_int 300)"
  using temperature_roundtrip[of 2705 300] by linarith

theorem kelvin_roundtrip_off_by_5:
  "tempToCalvin (calvinToTemp (Num 2705)) = Num 2700 \<and>
   \<not> num_within (tempToCalvin (calvinToTemp (Num 2705))) 2705 1"
  by (simp add: Math_round_def num_within_def)

text \<open>
  The boundary values of the mapper of the coalescing accessory: 2700 K is 500, 6500 K is
  140, and back.
\<close>

lemma calvinToTemp_boundaries:
  "calvinToTemp (Num 2700) = Num 500 \<and> calvinToTemp (Num 6500) = Num 140 \<and>
   tempToCalvin (Num 140) = Num 6500 \<and> tempToCalvin (Num 500) = Num 2700"
  by (simp add: Math_round_def)

text \<open>
  C4. The claim: \<open>calvinToTemp\<close> maps 2700 to 500 and 6500 to 140, and \<open>tempToCalvin\<close>
  maps 140 to 6500 and 500 to 2700. The coalescing accessory does so
  (\<open>calvinToTemp_boundaries\<close>). The \<open>calvinToTemp\<close> of \<open>src/platformAccessory.ts\<close>
  leaves out the \<open>1 -\<close> that its own \<open>tempToCalvin\<close> has, and maps 2700 to 140 and 6500
  to 500.
\<close>

theorem calvinToTemp_old_boundaries:
  "calvinToTemp_old (Num 2700) = Num 140 \<and> calvinToTemp_old (Num 6500) = Num 500 \<and>
   tempToCalvin (Num 140) = Num 6500 \<and> tempToCalvin (Num 500) = Num 2700"
  by (simp add: Math_round_def)

section \<open>Device classification\<close>

lemma getProp_total:
  assumes "getProp r f = Inr v"
  shows "\<exists>w. getProp r g = Inr w"
  using assms by (cases "(r, f)" rule: getProp.cases) auto

lemma wizType_eq:
  assumes "getProp (Some info) ''result'' = Inr r" "getProp r ''dimming'' = Inr d"
      and "getProp r ''temp'' = Inr t"
  shows "wizType info =
           Inr (if \<not> truthy d then SWITCH else if truthy t then WHITE_LIGHT else RGB_LIGHT)"
  using assms by (simp add: wizType_def bindE_def)

lemma makeWizDevice_type_eq:
  assumes "getProp (Some info) ''result'' = Inr r" "getProp r ''dimming'' = Inr d"
      and "getProp r ''temp'' = Inr t"
  shows "map_sum id type (makeWizDevice addr info) =
           Inr (if \<not> truthy d then SWITCH else if truthy t then WHITE_LIGHT else RGB_LIGHT)"
proof -
  obtain m st rs sr sc where p:
    "getProp r ''mac'' = Inr m" "getProp r ''state'' = Inr st" "getProp r ''rssi'' = Inr rs"
    "getProp r ''src'' = Inr sr" "getProp r ''sceneId'' = Inr sc"
    using getProp_total[OF assms(2)] by metis
  show ?thesis
    using assms p by (simp add: makeWizDevice_def wizType_eq bindE_def Let_def)
qed

lemma makeWizDevice_fixed_type:
  assumes "getProp (Some info) ''result'' = Inr r" "getProp r ''dimming'' = Inr d"
      and "getProp r ''temp'' = Inr t"
  shows "map_sum id type (makeWizDevice_fixed addr info) = Inr WHITE_LIGHT"
proof -
  obtain m st rs sr sc where p:
    "getProp r ''mac'' = Inr m" "getProp r ''state'' = Inr st" "getProp r ''rssi'' = Inr rs"
    "getProp r ''src'' = Inr sr" "getProp r ''sceneId'' = Inr sc"
    using getProp_total[OF assms(2)] by metis
  show ?thesis
    using assms p by (simp add: makeWizDevice_fixed_def bindE_def Let_def)
qed

text \<open>
  C7. The claim: for a successful reply, no \<open>dimming\<close> field gives Switch, \<open>dimming\<close> and
  \<open>temp\<close> both present give WhiteLight, \<open>dimming\<close> without \<open>temp\<close> gives RgbLight.
  \<open>makeWizDevice\<close> of \<open>src/platform.ts\<close> and of \<open>TestClass\<close> tests the two fields for
  truthiness, so a field that is present but falsy counts as missing; the platform class
  with the fixed device list does not classify and gives WHITE_LIGHT to every reply. What
  holds, for a reply whose \<open>result\<close> can be read from: a falsy or missing \<open>dimming\<close> gives
  SWITCH, a truthy \<open>dimming\<close> with a truthy \<open>temp\<close> gives WHITE_LIGHT, a truthy
  \<open>dimming\<close> with a falsy or missing \<open>temp\<close> gives RGB_LIGHT; the fixed-list variant gives
  WHITE_LIGHT.
\<close>

theorem makeWizDevice_type:
  assumes "getProp (Some info) ''result'' = Inr r" "getProp r ''dimming'' = Inr d"
      and "getProp r ''temp'' = Inr t"
  shows "map_sum id type (makeWizDevice addr info) =
           Inr (if \<not> truthy d then SWITCH else if truthy t then WHITE_LIGHT else RGB_LIGHT) \<and>
         map_sum id type (makeWizDevice_fixed addr info) = Inr WHITE_LIGHT"
  using makeWizDevice_type_eq[OF assms] makeWizDevice_fixed_type[OF assms] by simp

text \<open>The three replies of the claim: \<open>{dimming: 50, temp: 2700}\<close>, \<open>{dimming: 80}\<close>, \<open>{}\<close>.\<close>

theorem makeWizDevice_type_witness:
  "map_sum id type (makeWizDevice ''192.168.1.144''
     (JObj [(''result'', JObj [(''dimming'', JNum 50), (''temp'', JNum 2700)])])) = Inr WHITE_LIGHT \<and>
   map_sum id type (makeWizDevice ''192.168.1.144''
     (JObj [(''result'', JObj [(''dimming'', JNum 80)])])) = Inr RGB_LIGHT \<and>
   map_sum id type (makeWizDevice ''192.168.1.144''
     (JObj [(''result'', JObj [])])) = Inr SWITCH \<and>
   map_sum id type (makeWizDevice_fixed ''192.168.1.144''
     (JObj [(''result'', JObj [(''dimming'', JNum 80)])])) = Inr WHITE_LIGHT"
  using
    makeWizDevice_type[where
      info = "JObj [(''result'', JObj [(''dimming'', JNum 50), (''temp'', JNum 2700)])]"
      and r = "Some (JObj [(''dimming'', JNum 50), (''temp'', JNum 2700)])"
      and d = "Some (JNum 50)" and t = "Some (JNum 2700)" and addr = "''192.168.1.144''"]
    makeWizDevice_type[where info = "JObj [(''result'', JObj [(''dimming'', JNum 80)])]"
      and r = "Some (JObj [(''dimming'', JNum 80)])" and d = "Some (JNum 80)" and t = None
      and addr = "''192.168.1.144''"]
    makeWizDevice_type[where info = "JObj [(''result'', JObj [])]"
      and r = "Some (JObj [])" and d = None and t = None and addr = "''192.168.1.144''"]
  by simp

theorem zero_dimming_is_switch:
  "map_of [(''dimming'', JNum 0), (''temp'', JNum 2700)] ''dimming'' = Some (JNum 0) \<and>
   map_of [(''dimming'', JNum 0), (''temp'', JNum 2700)] ''temp'' = Some (JNum 2700) \<and>
   map_sum id type (makeWizDevice ''192.168.1.144''
      (JObj [(''method'', JStr ''getPilot''),
             (''result'', JObj [(''dimming'', JNum 0), (''temp'', JNum 2700)])])) = Inr SWITCH"
  by (simp add: makeWizDevice_def wizType_def bindE_def)

text \<open>
  C9. Classification tests the truthiness of the optional fields, not their presence: a
  reply whose result has \<open>dimming\<close> equal to 0 is a SWITCH, and a reply with a nonzero
  \<open>dimming\<close> and \<open>temp\<close> equal to 0 is an RGB_LIGHT.
\<close>

theorem falsy_fields_count_as_missing:
  assumes "getProp (Some info) ''result'' = Inr (Some (JObj kvs))"
  shows "(map_of kvs ''dimming'' = Some (JNum 0) \<longrightarrow>
            map_sum id type (makeWizDevice addr info) = Inr SWITCH) \<and>
         (map_of kvs ''dimming'' = Some (JNum x) \<and> x \<noteq> 0 \<and> map_of kvs ''temp'' = Some (JNum 0) \<longrightarrow>
            map_sum id type (makeWizDevice addr info) = Inr RGB_LIGHT)"
  using makeWizDevice_type_eq[OF assms, of "map_of kvs ''dimming''" "map_of kvs ''temp''" addr]
  by auto

theorem falsy_fields_count_as_missing_witness:
  "getProp (Some (JObj [(''result'', JObj [(''dimming'', JNum 0)])])) ''result'' =
     Inr (Some (JObj [(''dimming'', JNum 0)])) \<and>
   map_of [(''dimming'', JNum 0)] ''dimming'' = Some (JNum 0) \<and>
   map_sum id type (makeWizDevice ''192.168.1.73''
     (JObj [(''result'', JObj [(''dimming'', JNum 0)])])) = Inr SWITCH \<and>
   map_of [(''dimming'', JNum 40), (''temp'', JNum 0)] ''dimming'' = Some (JNum 40) \<and>
   (40::real) \<noteq> 0 \<and>
   map_of [(''dimming'', JNum 40), (''temp'', JNum 0)] ''temp'' = Some (JNum 0) \<and>
   map_sum id type (makeWizDevice ''192.168.1.73''
     (JObj [(''result'', JObj [(''dimming'', JNum 40), (''temp'', JNum 0)])])) = Inr RGB_LIGHT"
  using
    falsy_fields_count_as_missing[where info = "JObj [(''result'', JObj [(''dimming'', JNum 0)])]"
      and kvs = "[(''dimming'', JNum 0)]" and x = 0 and addr = "''192.168.1.73''"]
    falsy_fields_count_as_missing[where
      info = "JObj [(''result'', JObj [(''dimming'', JNum 40), (''temp'', JNum 0)])]"
      and kvs = "[(''dimming'', JNum 40), (''temp'', JNum 0)]" and x = 40
      and addr = "''192.168.1.73''"]
  by simp

section \<open>The callbacks and the message handler of the accessory\<close>

lemma invoke_no_throw:
  assumes "has_result response"
  shows "snd (invoke rt cb response s) = None"
  using assms
  by (cases cb)
     (auto simp: invoke_def has_result_def getOn_cb_def getBrightness_cb_def getTemperature_cb_def
                 setOn_cb_def bindE_def nullish_def Let_def
           split: sum.splits elim: getProp.elims)

lemma invoke_frame:
  "invoked (fst (invoke rt cb response s)) = invoked s @ [(cb, response)] \<and>
   callbacks (fst (invoke rt cb response s)) = callbacks s \<and>
   sockets (fst (invoke rt cb response s)) = sockets s \<and>
   sent (fst (invoke rt cb response s)) = sent s \<and>
   pendingRequest (fst (invoke rt cb response s)) = pendingRequest s \<and>
   uncaught (fst (invoke rt cb response s)) = uncaught s"
  by (cases cb)
     (auto simp: invoke_def getOn_cb_def getBrightness_cb_def getTemperature_cb_def
                 setOn_cb_def hk_call_def Let_def
           split: sum.splits)

lemma forEach_callback_ok:
  assumes "has_result response"
  shows "snd (forEach_callback rt cbs response s) = None \<and>
         invoked (fst (forEach_callback rt cbs response s)) =
           invoked s @ map (\<lambda>cb. (cb, response)) cbs \<and>
         callbacks (fst (forEach_callback rt cbs response s)) = callbacks s \<and>
         sockets (fst (forEach_callback rt cbs response s)) = sockets s \<and>
         sent (fst (forEach_callback rt cbs response s)) = sent s \<and>
         pendingRequest (fst (forEach_callback rt cbs response s)) = pendingRequest s \<and>
         uncaught (fst (forEach_callback rt cbs response s)) = uncaught s"
proof (induction cbs arbitrary: s)
  case Nil
  show ?case by simp
next
  case (Cons cb cbs)
  obtain s1 where s1: "invoke rt cb response s = (s1, None)"
    using invoke_no_throw[OF assms, of rt cb s] by (cases "invoke rt cb response s") auto
  have f: "fst (invoke rt cb response s) = s1" using s1 by simp
  show ?case
    using Cons.IH[of s1] invoke_frame[of rt cb response s] unfolding f
    by (simp add: s1)
qed

lemma request_frame:
  "callbacks (request method params c s) = callbacks s \<and>
   invoked (request method params c s) = invoked s \<and>
   homekit (request method params c s) = homekit s \<and>
   pendingRequest (request method params c s) \<and>
   sent (request method params c s) = sent s @ [(method, params)] \<and>
   length (sockets (request method params c s)) = Suc (length (sockets s)) \<and>
   sockets (request method params c s) ! length (sockets s) =
     \<lparr>s_method = method, s_callback = c, s_open = True, s_sending = True, s_close_timers = 0\<rparr>"
  by (simp add: request_def Let_def)

lemma getPilot_pending:
  assumes "pendingRequest s"
  shows "getPilot cb s = s\<lparr>callbacks := callbacks s @ [cb]\<rparr>"
  using assms by (simp add: getPilot_def Let_def)

lemma getPilots_pending:
  assumes "pendingRequest s"
  shows "foldl (\<lambda>s cb. getPilot cb s) s cbs = s\<lparr>callbacks := callbacks s @ cbs\<rparr>"
  using assms
proof (induction cbs arbitrary: s)
  case Nil
  then show ?case by simp
next
  case (Cons cb cbs)
  have "pendingRequest (s\<lparr>callbacks := callbacks s @ [cb]\<rparr>)" using Cons.prems by simp
  from Cons.IH[OF this] show ?case using Cons.prems by (simp add: getPilot_pending)
qed

lemma getPilot_idle:
  assumes "\<not> pendingRequest s"
  shows "getPilot cb s =
           s\<lparr>callbacks := callbacks s @ [cb], pendingRequest := True,
             sockets := sockets s @ [\<lparr>s_method = ''getPilot'', s_callback = None, s_open = True,
                                      s_sending = True, s_close_timers = 0\<rparr>],
             sent := sent s @ [(''getPilot'', [])]\<rparr>"
  using assms by (simp add: getPilot_def request_def Let_def)

lemma getPilots_idle:
  assumes "\<not> pendingRequest s" "cbs \<noteq> []"
  shows "foldl (\<lambda>s cb. getPilot cb s) s cbs =
           s\<lparr>callbacks := callbacks s @ cbs, pendingRequest := True,
             sockets := sockets s @ [\<lparr>s_method = ''getPilot'', s_callback = None, s_open = True,
                                      s_sending = True, s_close_timers = 0\<rparr>],
             sent := sent s @ [(''getPilot'', [])]\<rparr>"
proof (cases cbs)
  case Nil
  then show ?thesis using assms by simp
next
  case (Cons cb cbs')
  show ?thesis
    unfolding Cons by (simp add: getPilot_idle[OF assms(1)] getPilots_pending)
qed

lemma getPilot_callbacks: "callbacks (getPilot cb s) = callbacks s @ [cb]"
  by (simp add: getPilot_def request_def Let_def)

lemma getPilot_logs: "invoked (getPilot cb s) = invoked s \<and> homekit (getPilot cb s) = homekit s"
  by (simp add: getPilot_def request_def Let_def)

lemma on_message_own_callback:
  assumes "JSON_parse rt message = Some response" "s_callback (sockets s ! i) = Some c"
  shows "invoked (on_message rt i message s) = invoked s @ [(c, response)] \<and>
         callbacks (on_message rt i message s) = callbacks s \<and>
         sent (on_message rt i message s) = sent s"
proof -
  let ?s1 = "s\<lparr>pendingRequest := False\<rparr>"
  obtain s2 e where s2: "invoke rt c response ?s1 = (s2, e)"
    by (cases "invoke rt c response ?s1") auto
  have f: "fst (invoke rt c response ?s1) = s2" using s2 by simp
  show ?thesis
    using assms invoke_frame[of rt c response ?s1] unfolding f
    by (cases e) (simp_all add: on_message_def Let_def s2 throw_def update_socket_def)
qed

lemma on_message_drain:
  assumes "JSON_parse rt message = Some response" "s_callback (sockets s ! i) = None"
      and "has_result response"
  shows "invoked (on_message rt i message s) =
           invoked s @ map (\<lambda>cb. (cb, response)) (callbacks s) \<and>
         callbacks (on_message rt i message s) = [] \<and>
         sent (on_message rt i message s) = sent s \<and>
         uncaught (on_message rt i message s) = uncaught s \<and>
         \<not> pendingRequest (on_message rt i message s) \<and>
         sockets (on_message rt i message s) =
           (sockets s)[i := (sockets s ! i)\<lparr>s_close_timers := Suc (s_close_timers (sockets s ! i))\<rparr>]"
proof -
  let ?s1 = "s\<lparr>pendingRequest := False\<rparr>"
  obtain s2 where s2: "forEach_callback rt (callbacks s) response ?s1 = (s2, None)"
    using forEach_callback_ok[OF assms(3), of rt "callbacks s" ?s1]
    by (cases "forEach_callback rt (callbacks s) response ?s1") auto
  have f: "fst (forEach_callback rt (callbacks s) response ?s1) = s2" using s2 by simp
  show ?thesis
    using assms(1,2) forEach_callback_ok[OF assms(3), of rt "callbacks s" ?s1] unfolding f
    by (simp add: on_message_def Let_def s2 update_socket_def)
qed

lemma on_message_callbacks_kept:
  assumes "s_callback (sockets s ! i) \<noteq> None"
  shows "callbacks (on_message rt i message s) = callbacks s"
proof (cases "JSON_parse rt message")
  case None
  then show ?thesis by (simp add: on_message_def throw_def)
next
  case (Some response)
  from assms obtain c where "s_callback (sockets s ! i) = Some c" by auto
  from on_message_own_callback[OF Some this] show ?thesis by simp
qed

lemma step_keeps_queue:
  assumes "\<not> getPilot_reply t e"
  shows "take (length (callbacks t)) (callbacks (step rt t e)) = callbacks t"
proof (cases e)
  case (Message i message)
  then show ?thesis using assms by (auto simp: on_message_callbacks_kept)
next
  case (SendDone i error)
  then show ?thesis
    by (auto simp: on_send_done_def update_socket_def client_close_def throw_def Let_def)
next
  case (CloseTimer i)
  then show ?thesis
    by (auto simp: on_close_timer_def update_socket_def client_close_def throw_def Let_def)
qed (simp_all add: setOn_def getOn_def setBrightness_def getBrightness_def setTemperature_def
       getTemperature_def request_frame getPilot_callbacks Let_def)

lemma step_no_message:
  assumes "\<not> is_message e"
  shows "invoked (step rt s e) = invoked s \<and> homekit (step rt s e) = homekit s"
proof (cases e)
  case (Message i message)
  then show ?thesis using assms by simp
next
  case (SendDone i error)
  then show ?thesis
    by (auto simp: on_send_done_def update_socket_def client_close_def throw_def Let_def)
next
  case (CloseTimer i)
  then show ?thesis
    by (auto simp: on_close_timer_def update_socket_def client_close_def throw_def Let_def)
qed (simp_all add: setOn_def getOn_def setBrightness_def getBrightness_def setTemperature_def
       getTemperature_def request_frame getPilot_logs Let_def)

lemma run_no_message:
  assumes "no_message evs"
  shows "invoked (run rt s evs) = invoked s \<and> homekit (run rt s evs) = homekit s"
  using assms unfolding run_def
proof (induction evs arbitrary: s)
  case Nil
  show ?case by simp
next
  case (Cons e evs)
  then show ?case using step_no_message[of e rt s] by simp
qed

section \<open>The request coalescer\<close>

text \<open>
  C1. The claim: at most one \<open>getPilot\<close> exchange is outstanding per device at any time,
  because \<open>pendingRequest\<close> is set before the network call and cleared only after the reply
  is processed, and a \<open>getPilot\<close> call that finds the flag set only queues its callback.
  \<open>request\<close> sets the flag first (\<open>request_frame\<close>) and a call that finds it set only
  queues (\<open>getPilot_pending\<close>), but the callback of \<open>client.send\<close> clears the flag as soon
  as the datagram has left, before any reply. A \<open>getPilot\<close> call after that sends a second
  datagram while the first exchange still waits: two \<open>getPilot\<close> sockets wait for a reply.
\<close>

theorem two_getPilot_outstanding:
  "pendingRequest (run rt0 new_light [GetOn 1]) \<and>
   \<not> pendingRequest (run rt0 new_light [GetOn 1, SendDone 0 False]) \<and>
   invoked (run rt0 new_light [GetOn 1, SendDone 0 False, GetOn 2]) = [] \<and>
   sent (run rt0 new_light [GetOn 1, SendDone 0 False, GetOn 2]) =
     [(''getPilot'', []), (''getPilot'', [])] \<and>
   length (outstanding ''getPilot'' (run rt0 new_light [GetOn 1, SendDone 0 False, GetOn 2])) = 2"
  by (simp add: run_def new_light_def getOn_def getPilot_def request_def on_send_done_def
        update_socket_def outstanding_def Let_def)

text \<open>
  Calls that find the flag set are coalesced. N \<ge> 1 \<open>getPilot\<close> calls made in a row on
  an idle accessory (flag clear, queue empty), before the callback of \<open>client.send\<close> runs,
  send exactly one datagram; when the send has completed and one reply arrives that parses
  and has a \<open>result\<close>, the N callbacks are invoked with that parsed reply in the order of
  their calls, no error leaves the handler, and the queue is empty.
\<close>

lemma coalesced_delivery:
  assumes "cbs \<noteq> []" "\<not> pendingRequest s" "callbacks s = []"
      and "JSON_parse rt message = Some response" "has_result response"
  shows "sent (foldl (\<lambda>s cb. getPilot cb s) s cbs) = sent s @ [(''getPilot'', [])] \<and>
         callbacks (foldl (\<lambda>s cb. getPilot cb s) s cbs) = cbs \<and>
         sent (run rt (foldl (\<lambda>s cb. getPilot cb s) s cbs)
                 [SendDone (length (sockets s)) False, Message (length (sockets s)) message])
           = sent s @ [(''getPilot'', [])] \<and>
         invoked (run rt (foldl (\<lambda>s cb. getPilot cb s) s cbs)
                 [SendDone (length (sockets s)) False, Message (length (sockets s)) message])
           = invoked s @ map (\<lambda>cb. (cb, response)) cbs \<and>
         callbacks (run rt (foldl (\<lambda>s cb. getPilot cb s) s cbs)
                 [SendDone (length (sockets s)) False, Message (length (sockets s)) message])
           = [] \<and>
         uncaught (run rt (foldl (\<lambda>s cb. getPilot cb s) s cbs)
                 [SendDone (length (sockets s)) False, Message (length (sockets s)) message])
           = uncaught s"
proof -
  let ?i = "length (sockets s)"
  let ?client = "\<lparr>s_method = ''getPilot'', s_callback = None, s_open = True,
                  s_sending = True, s_close_timers = 0\<rparr>"
  define s1 where "s1 = foldl (\<lambda>s cb. getPilot cb s) s cbs"
  have s1: "s1 = s\<lparr>callbacks := cbs, pendingRequest := True,
                    sockets := sockets s @ [?client],
                    sent := sent s @ [(''getPilot'', [])]\<rparr>"
    unfolding s1_def using getPilots_idle[OF assms(2,1)] assms(3) by simp
  define s2 where "s2 = step rt s1 (SendDone ?i False)"
  have s2: "s2 = s1\<lparr>pendingRequest := False,
                     sockets := sockets s @ [?client\<lparr>s_sending := False\<rparr>]\<rparr>"
    unfolding s2_def s1 by (simp add: on_send_done_def update_socket_def Let_def)
  have cb: "s_callback (sockets s2 ! ?i) = None" and op: "s_open (sockets s2 ! ?i)"
    and len: "?i < length (sockets s2)"
    unfolding s2 by simp_all
  have s3: "step rt s2 (Message ?i message) = on_message rt ?i message s2"
    using op len by simp
  have r: "run rt s1 [SendDone ?i False, Message ?i message] = on_message rt ?i message s2"
    unfolding run_def using s3 by (simp add: s2_def)
  show ?thesis
    unfolding s1_def[symmetric] r
    using on_message_drain[OF assms(4) cb assms(5)]
    by (simp add: s2) (simp add: s1)
qed

text \<open>Five calls in a row, as in the specification's test.\<close>

lemma coalesced_delivery_five:
  "[GetOnCb 1, GetBrightnessCb 2, GetTemperatureCb 3, GetOnCb 4, GetBrightnessCb 5] \<noteq> [] \<and>
   \<not> pendingRequest new_light \<and> callbacks new_light = [] \<and>
   JSON_parse rt0 ''white'' = Some reply_white \<and> has_result reply_white \<and>
   sent (run rt0 (foldl (\<lambda>s cb. getPilot cb s) new_light
           [GetOnCb 1, GetBrightnessCb 2, GetTemperatureCb 3, GetOnCb 4, GetBrightnessCb 5])
         [SendDone 0 False, Message 0 ''white'']) = [(''getPilot'', [])] \<and>
   invoked (run rt0 (foldl (\<lambda>s cb. getPilot cb s) new_light
           [GetOnCb 1, GetBrightnessCb 2, GetTemperatureCb 3, GetOnCb 4, GetBrightnessCb 5])
         [SendDone 0 False, Message 0 ''white'']) =
     [(GetOnCb 1, reply_white), (GetBrightnessCb 2, reply_white), (GetTemperatureCb 3, reply_white),
      (GetOnCb 4, reply_white), (GetBrightnessCb 5, reply_white)] \<and>
   callbacks (run rt0 (foldl (\<lambda>s cb. getPilot cb s) new_light
           [GetOnCb 1, GetBrightnessCb 2, GetTemperatureCb 3, GetOnCb 4, GetBrightnessCb 5])
         [SendDone 0 False, Message 0 ''white'']) = []"
proof -
  have n: "[GetOnCb 1, GetBrightnessCb 2, GetTemperatureCb 3, GetOnCb 4, GetBrightnessCb 5] \<noteq> []"
    by simp
  note w = coalesced_delivery[OF n new_light_fields(1,2) sample_parses(2) sample_has_result(1)]
  show ?thesis
    using w n sample_parses(2) sample_has_result(1) by (simp add: new_light_fields)
qed

text \<open>
  \<open>setPilot\<close> requests set the same flag as \<open>getPilot\<close> requests, and the reply to a
  request that has a callback of its own invokes only that callback. A \<open>getPilot\<close>
  callback queued while the flag of a \<open>setPilot\<close> request is set sends no datagram and is
  not invoked by the \<open>setPilot\<close> reply. A queued callback stays in the queue through
  every event that is not a datagram on a \<open>getPilot\<close> socket, and a \<open>getPilot\<close> reply
  that parses and has a \<open>result\<close> invokes the whole queue and empties it.
\<close>

lemma setPilot_reply_leaves_queue:
  assumes "JSON_parse rt message = Some response"
  shows "pendingRequest (request ''setPilot'' params (Some c) s) \<and>
         sent (getPilot cb (request ''setPilot'' params (Some c) s)) =
           sent (request ''setPilot'' params (Some c) s) \<and>
         sockets (getPilot cb (request ''setPilot'' params (Some c) s)) =
           sockets (request ''setPilot'' params (Some c) s) \<and>
         callbacks (getPilot cb (request ''setPilot'' params (Some c) s)) = callbacks s @ [cb] \<and>
         invoked (step rt (getPilot cb (request ''setPilot'' params (Some c) s))
                    (Message (length (sockets s)) message)) = invoked s @ [(c, response)] \<and>
         callbacks (step rt (getPilot cb (request ''setPilot'' params (Some c) s))
                    (Message (length (sockets s)) message)) = callbacks s @ [cb] \<and>
         (\<not> getPilot_reply t e \<longrightarrow>
            take (length (callbacks t)) (callbacks (step rt t e)) = callbacks t) \<and>
         (j < length (sockets t) \<and> s_open (sockets t ! j) \<and> s_callback (sockets t ! j) = None \<and>
          JSON_parse rt message' = Some response' \<and> has_result response' \<longrightarrow>
            invoked (step rt t (Message j message')) =
              invoked t @ map (\<lambda>cb. (cb, response')) (callbacks t) \<and>
            callbacks (step rt t (Message j message')) = [])"
proof -
  define s1 where "s1 = request ''setPilot'' params (Some c) s"
  define s2 where "s2 = getPilot cb s1"
  define s3 where "s3 = step rt s2 (Message (length (sockets s)) message)"
  have p: "pendingRequest s1" unfolding s1_def by (simp add: request_frame)
  have s2: "s2 = s1\<lparr>callbacks := callbacks s1 @ [cb]\<rparr>"
    unfolding s2_def using p by (rule getPilot_pending)
  have c1: "callbacks s1 = callbacks s" "invoked s1 = invoked s"
    unfolding s1_def by (simp_all add: request_frame)
  have sock: "sockets s2 ! length (sockets s) =
      \<lparr>s_method = ''setPilot'', s_callback = Some c, s_open = True, s_sending = True,
       s_close_timers = 0\<rparr>"
    and len: "length (sockets s) < length (sockets s2)"
    unfolding s2 by (simp_all add: s1_def request_frame)
  have s3: "s3 = on_message rt (length (sockets s)) message s2"
    unfolding s3_def using sock len by simp
  have own: "s_callback (sockets s2 ! length (sockets s)) = Some c" using sock by simp
  have m: "invoked s3 = invoked s @ [(c, response)]" "callbacks s3 = callbacks s @ [cb]"
    unfolding s3 using on_message_own_callback[OF assms(1) own] by (simp_all add: s2 c1)
  have A: "pendingRequest s1 \<and> sent s2 = sent s1 \<and> sockets s2 = sockets s1 \<and>
        callbacks s2 = callbacks s @ [cb] \<and>
        invoked s3 = invoked s @ [(c, response)] \<and> callbacks s3 = callbacks s @ [cb]"
    using p m by (simp add: s2 c1)
  have B: "\<not> getPilot_reply t e \<longrightarrow>
        take (length (callbacks t)) (callbacks (step rt t e)) = callbacks t"
    using step_keeps_queue[of t e rt] by blast
  have C: "j < length (sockets t) \<and> s_open (sockets t ! j) \<and> s_callback (sockets t ! j) = None \<and>
          JSON_parse rt message' = Some response' \<and> has_result response' \<longrightarrow>
            invoked (step rt t (Message j message')) =
              invoked t @ map (\<lambda>cb. (cb, response')) (callbacks t) \<and>
            callbacks (step rt t (Message j message')) = []"
    using on_message_drain[of rt message' response' t j] by simp
  show ?thesis
    using A[unfolded s3_def s2_def s1_def] B C by blast
qed

text \<open>
  C2. The claim: N \<ge> 1 \<open>getPilot\<close> calls issued while a single request is outstanding,
  and one reply, give exactly one datagram and N deliveries of the same parsed reply in
  call order, after which the queue is empty. This holds for calls that find the flag set
  (\<open>coalesced_delivery\<close>). The callback of \<open>client.send\<close> clears the flag while the
  request still waits for its reply, so of five calls, four of them made after the send
  callback of the first, the second call sends a second datagram. The reply to the first
  request is delivered to all five callbacks in call order and empties the queue; the
  second exchange still waits.
\<close>

theorem calls_after_send_callback_send_again:
  "sent (run rt0 new_light [GetOn 1, SendDone 0 False]) = [(''getPilot'', [])] \<and>
   length (outstanding ''getPilot'' (run rt0 new_light [GetOn 1, SendDone 0 False])) = 1 \<and>
   sent (run rt0 new_light
      [GetOn 1, SendDone 0 False, GetBrightness 2, GetTemperature 3, GetOn 4, GetBrightness 5])
     = [(''getPilot'', []), (''getPilot'', [])] \<and>
   JSON_parse rt0 ''white'' = Some reply_white \<and>
   sent (run rt0 new_light
      [GetOn 1, SendDone 0 False, GetBrightness 2, GetTemperature 3, GetOn 4, GetBrightness 5,
       SendDone 1 False, Message 0 ''white''])
     = [(''getPilot'', []), (''getPilot'', [])] \<and>
   invoked (run rt0 new_light
      [GetOn 1, SendDone 0 False, GetBrightness 2, GetTemperature 3, GetOn 4, GetBrightness 5,
       SendDone 1 False, Message 0 ''white''])
     = [(GetOnCb 1, reply_white), (GetBrightnessCb 2, reply_white),
        (GetTemperatureCb 3, reply_white), (GetOnCb 4, reply_white),
        (GetBrightnessCb 5, reply_white)] \<and>
   callbacks (run rt0 new_light
      [GetOn 1, SendDone 0 False, GetBrightness 2, GetTemperature 3, GetOn 4, GetBrightness 5,
       SendDone 1 False, Message 0 ''white'']) = [] \<and>
   length (outstanding ''getPilot'' (run rt0 new_light
      [GetOn 1, SendDone 0 False, GetBrightness 2, GetTemperature 3, GetOn 4, GetBrightness 5,
       SendDone 1 False, Message 0 ''white''])) = 1"
  by (simp add: run_def new_light_def getOn_def getBrightness_def getTemperature_def getPilot_def
        request_def on_send_done_def update_socket_def outstanding_def on_message_def
        sample_parses invoke_def getOn_cb_def getBrightness_cb_def getTemperature_cb_def
        reply_white_def bindE_def hk_call_def coalesce_def nullish_def isNaN_def rt0_def
        sample_parse_def sample_parseInt_def Math_round_def Let_def)


section \<open>Temperature delivered by \<open>getTemperature\<close>\<close>

text \<open>
  In the coalescing accessory a \<open>temp\<close> that \<open>parseInt\<close> cannot read is replaced by 500
  before it is stored and handed to HomeKit.
\<close>

lemma getTemperature_cb_fallback:
  assumes "getProp (Some response) ''result'' = Inr r" "getProp r ''temp'' = Inr t"
      and "isNaN (parseInt rt t)"
  shows "getTemperature_cb rt h response s =
           (s\<lparr>currentState := (currentState s)\<lparr>Temperature := Num 500\<rparr>,
              homekit := homekit s @ [(h, HkNum (Num 500))]\<rparr>, None)"
proof -
  have "parseInt rt t = NaN"
    using assms(3) by (cases "parseInt rt t") (simp_all add: isNaN_def)
  then show ?thesis
    using assms(1,2) by (simp add: getTemperature_cb_def bindE_def isNaN_def hk_call_def Let_def)
qed

text \<open>
  C8. The claim: for a reply whose \<open>temp\<close> does not parse as a number, \<open>getTemperature\<close>
  delivers a default boundary value (140 or 500), not an error and not \<open>NaN\<close>. The
  coalescing accessory delivers 500 (\<open>getTemperature_cb_fallback\<close>). The
  \<open>getTemperature\<close> of \<open>src/platformAccessory.ts\<close> has no such test: for a reply
  without \<open>temp\<close> it stores and delivers \<open>NaN\<close>.
\<close>

theorem getTemperature_old_delivers_NaN:
  "bindE (getProp (Some reply_notemp) ''result'') (\<lambda>r. getProp r ''temp'') = Inr None \<and>
   parseInt rt0 None = NaN \<and>
   getTemperature_cb_old rt0 reply_notemp = Inr NaN \<and>
   homekit (fst (getTemperature_cb rt0 7 reply_notemp new_light)) = [(7, HkNum (Num 500))]"
  by (simp add: getTemperature_cb_old_def getTemperature_cb_def reply_notemp_def bindE_def
        rt0_def sample_parseInt_def isNaN_def hk_call_def new_light_def Let_def)

section \<open>Timeouts and malformed replies\<close>

lemma probe_step_settled: "probe_settled s \<Longrightarrow> probe_settled (probe_step rt s e)"
  by (cases e)
     (auto simp: probe_settled_def probe_message_def probe_send_done_def probe_close_timer_def
                 probe_timeout_def probe_close_def resolve_def Let_def
           split: option.splits sum.splits)

lemma probe_run_settled: "probe_settled s \<Longrightarrow> probe_settled (probe_run rt s evs)"
  unfolding probe_run_def by (induction evs arbitrary: s) (simp_all add: probe_step_settled)

lemma probe_timeout_fires:
  assumes "p_timeout s \<noteq> None"
  shows "\<not> p_open (probe_step rt s PTimeout) \<and>
         p_resolved (probe_step rt s PTimeout) =
           (if p_resolved s = None then Some None else p_resolved s) \<and>
         p_uncaught (probe_step rt s PTimeout) = p_uncaught s"
  using assms by (auto simp: probe_timeout_def probe_close_def resolve_def Let_def)

text \<open>
  C5. The claim: every network exchange, in discovery and in the accessory, carries a
  timeout whose expiry resolves the call to absence and releases the socket. \<open>getWizDevice\<close>
  sets one; \<open>request\<close> of the accessory sets none. What holds: a \<open>getWizDevice\<close> call
  starts with its timer pending; when the timer fires the socket is closed and a promise
  still pending is resolved to \<open>null\<close>; after any events, a call whose timer is no longer
  pending is resolved and its socket is closed. In the accessory no callback is invoked
  unless a datagram arrives.
\<close>

theorem discovery_timeout:
  "p_timeout (getWizDevice ms addr) = Some ms \<and>
   (p_timeout s \<noteq> None \<longrightarrow>
      \<not> p_open (probe_step rt s PTimeout) \<and>
      p_resolved (probe_step rt s PTimeout) =
        (if p_resolved s = None then Some None else p_resolved s) \<and>
      p_uncaught (probe_step rt s PTimeout) = p_uncaught s) \<and>
   (p_timeout (probe_run rt (getWizDevice ms addr) evs) = None \<longrightarrow>
      p_resolved (probe_run rt (getWizDevice ms addr) evs) \<noteq> None \<and>
      \<not> p_open (probe_run rt (getWizDevice ms addr) evs)) \<and>
   (no_message evs' \<longrightarrow>
      invoked (run rt l evs') = invoked l \<and> homekit (run rt l evs') = homekit l)"
proof -
  have "probe_settled (getWizDevice ms addr)"
    by (simp add: probe_settled_def getWizDevice_def)
  then have "probe_settled (probe_run rt (getWizDevice ms addr) evs)"
    by (rule probe_run_settled)
  then have "p_timeout (probe_run rt (getWizDevice ms addr) evs) = None \<longrightarrow>
      p_resolved (probe_run rt (getWizDevice ms addr) evs) \<noteq> None \<and>
      \<not> p_open (probe_run rt (getWizDevice ms addr) evs)"
    unfolding probe_settled_def by blast
  moreover have "p_timeout (getWizDevice ms addr) = Some ms"
    by (simp add: getWizDevice_def)
  ultimately show ?thesis
    using probe_timeout_fires[of s rt] run_no_message[of evs' rt l] by blast
qed

theorem discovery_timeout_witness:
  "p_timeout (getWizDevice 1000 ''192.168.1.144'') = Some 1000 \<and>
   \<not> p_open (probe_step rt0 (getWizDevice 1000 ''192.168.1.144'') PTimeout) \<and>
   p_resolved (probe_step rt0 (getWizDevice 1000 ''192.168.1.144'') PTimeout) = Some None \<and>
   p_timeout (probe_run rt0 (getWizDevice 1000 ''192.168.1.144'') [PSendDone False, PTimeout]) = None \<and>
   p_resolved (probe_run rt0 (getWizDevice 1000 ''192.168.1.144'') [PSendDone False, PTimeout])
     = Some None \<and>
   \<not> p_open (probe_run rt0 (getWizDevice 1000 ''192.168.1.144'') [PSendDone False, PTimeout]) \<and>
   no_message [GetOn 1, SendDone 0 False, SetOn True 2, CloseTimer 0] \<and>
   homekit (run rt0 new_light [GetOn 1, SendDone 0 False, SetOn True 2, CloseTimer 0]) = []"
proof -
  have t: "p_timeout (probe_run rt0 (getWizDevice 1000 ''192.168.1.144'') [PSendDone False, PTimeout])
      = None"
    "p_resolved (probe_run rt0 (getWizDevice 1000 ''192.168.1.144'') [PSendDone False, PTimeout])
      = Some None"
    "p_timeout (getWizDevice 1000 ''192.168.1.144'') \<noteq> None"
    "p_resolved (getWizDevice 1000 ''192.168.1.144'') = None"
    by (simp_all add: probe_run_def getWizDevice_def probe_send_done_def probe_timeout_def
          probe_close_def resolve_def Let_def)
  have n: "no_message [GetOn 1, SendDone 0 False, SetOn True 2, CloseTimer 0]"
    by simp
  show ?thesis
    using t n
      discovery_timeout[where ms = 1000 and addr = "''192.168.1.144''" and rt = rt0
        and s = "getWizDevice 1000 ''192.168.1.144''" and evs = "[PSendDone False, PTimeout]"
        and evs' = "[GetOn 1, SendDone 0 False, SetOn True 2, CloseTimer 0]" and l = new_light]
    by (simp add: new_light_fields)
qed

text \<open>
  An accessory request whose datagram has left: the socket is open, neither its send
  callback nor a close timer is pending, and the callback waits in the queue.
\<close>

theorem request_no_timeout:
  "sockets (run rt0 new_light [GetOn 1, SendDone 0 False]) =
     [\<lparr>s_method = ''getPilot'', s_callback = None, s_open = True, s_sending = False,
       s_close_timers = 0\<rparr>] \<and>
   callbacks (run rt0 new_light [GetOn 1, SendDone 0 False]) = [GetOnCb 1] \<and>
   homekit (run rt0 new_light [GetOn 1, SendDone 0 False]) = [] \<and>
   uncaught (run rt0 new_light [GetOn 1, SendDone 0 False]) = []"
  by (simp add: run_def new_light_def getOn_def getPilot_def request_def on_send_done_def
        update_socket_def Let_def)

text \<open>
  C6. The claim: a reply that does not parse as JSON, or whose \<open>method\<close> is not the
  request's, resolves the call to \<open>null\<close> without raising, and the socket is closed. The
  message handler of \<open>getWizDevice\<close> does so; the message handler of the accessory's
  \<open>request\<close> neither catches the parse error nor looks at \<open>method\<close>. What holds, for
  \<open>getWizDevice\<close> with its promise pending: such a datagram resolves the promise to
  \<open>null\<close>, no error leaves the handler, and the 0 ms timer that the handler sets closes
  the socket.
\<close>

theorem probe_malformed:
  assumes "p_open s" "p_resolved s = None"
      and "JSON_parse rt message = None \<or>
           (JSON_parse rt message = Some info \<and>
            getProp (Some info) ''method'' \<noteq> Inr (Some (JStr ''getPilot'')))"
  shows "p_resolved (probe_step rt s (PMessage message)) = Some None \<and>
         p_uncaught (probe_step rt s (PMessage message)) = p_uncaught s \<and>
         0 < p_close_timers (probe_step rt s (PMessage message)) \<and>
         \<not> p_open (probe_step rt (probe_step rt s (PMessage message)) PCloseTimer) \<and>
         p_uncaught (probe_step rt (probe_step rt s (PMessage message)) PCloseTimer) = p_uncaught s"
  using assms
  by (auto simp: probe_message_def resolve_def probe_close_timer_def probe_close_def Let_def
           split: option.splits sum.splits)

theorem probe_malformed_witness:
  "p_open (getWizDevice 1000 ''192.168.1.144'') \<and>
   p_resolved (getWizDevice 1000 ''192.168.1.144'') = None \<and>
   JSON_parse rt0 ''garbage'' = None \<and>
   p_resolved (probe_step rt0 (getWizDevice 1000 ''192.168.1.144'') (PMessage ''garbage''))
     = Some None \<and>
   \<not> p_open (probe_step rt0
       (probe_step rt0 (getWizDevice 1000 ''192.168.1.144'') (PMessage ''garbage'')) PCloseTimer) \<and>
   JSON_parse rt0 ''set'' = Some reply_set \<and>
   getProp (Some reply_set) ''method'' = Inr (Some (JStr ''setPilot'')) \<and>
   p_resolved (probe_step rt0 (getWizDevice 1000 ''192.168.1.144'') (PMessage ''set''))
     = Some None \<and>
   \<not> p_open (probe_step rt0
       (probe_step rt0 (getWizDevice 1000 ''192.168.1.144'') (PMessage ''set'')) PCloseTimer)"
proof -
  have o: "p_open (getWizDevice 1000 ''192.168.1.144'')"
    "p_resolved (getWizDevice 1000 ''192.168.1.144'') = None"
    by (simp_all add: getWizDevice_def)
  have m: "getProp (Some reply_set) ''method'' = Inr (Some (JStr ''setPilot''))"
    by (simp add: reply_set_def)
  have a: "JSON_parse rt0 ''garbage'' = None \<or>
      (JSON_parse rt0 ''garbage'' = Some JNull \<and>
       getProp (Some JNull) ''method'' \<noteq> Inr (Some (JStr ''getPilot'')))"
    using sample_parses(4) by simp
  have b: "JSON_parse rt0 ''set'' = None \<or>
      (JSON_parse rt0 ''set'' = Some reply_set \<and>
       getProp (Some reply_set) ''method'' \<noteq> Inr (Some (JStr ''getPilot'')))"
    using sample_parses(1) m by simp
  show ?thesis
    using o m sample_parses(1,4) probe_malformed[OF o a] probe_malformed[OF o b] by blast
qed

text \<open>
  The same two datagrams on a socket of the accessory: the first leaves the handler as a
  SyntaxError with the socket open and no close scheduled; the second, a \<open>setPilot\<close>
  reply on a \<open>getPilot\<close> socket, is handed to the queued callback.
\<close>

theorem request_malformed:
  "JSON_parse rt0 ''garbage'' = None \<and>
   uncaught (run rt0 new_light [GetOn 1, SendDone 0 False, Message 0 ''garbage'']) = [SyntaxError] \<and>
   sockets (run rt0 new_light [GetOn 1, SendDone 0 False, Message 0 ''garbage'']) =
     [\<lparr>s_method = ''getPilot'', s_callback = None, s_open = True, s_sending = False,
       s_close_timers = 0\<rparr>] \<and>
   homekit (run rt0 new_light [GetOn 1, SendDone 0 False, Message 0 ''garbage'']) = [] \<and>
   getProp (JSON_parse rt0 ''set'') ''method'' = Inr (Some (JStr ''setPilot'')) \<and>
   homekit (run rt0 new_light [GetOn 1, SendDone 0 False, Message 0 ''set'']) = [(1, HkVal None)] \<and>
   uncaught (run rt0 new_light [GetOn 1, SendDone 0 False, Message 0 ''set'']) = []"
  by (simp add: run_def new_light_def getOn_def getPilot_def request_def on_send_done_def
        update_socket_def on_message_def throw_def rt0_def sample_parse_def reply_set_def
        invoke_def getOn_cb_def bindE_def hk_call_def Let_def)

end
